theory Spec2Isabelle
  imports Main
begin

section \<open>Values shared by the services\<close>

text \<open>
  A thrown JavaScript value. \<open>Error m\<close> is \<^verbatim>\<open>new Error(m)\<close> (also the rejections of the
  SDK calls and of \<^verbatim>\<open>fetch\<close>, with their message); \<open>TypeError\<close> is the engine's error on
  reading a property of \<^verbatim>\<open>undefined\<close> or \<^verbatim>\<open>null\<close> (its message text depends on the
  engine and is left out).
\<close>

datatype exn = Error string | TypeError

text \<open>
  Truthiness of an optional string (\<^verbatim>\<open>string | undefined\<close>): \<^verbatim>\<open>undefined\<close> and the empty
  string are falsy, every other string is truthy.
\<close>

definition truthy :: "string option \<Rightarrow> bool" where
  "truthy v = (case v of None \<Rightarrow> False | Some s \<Rightarrow> s \<noteq> [])"

section \<open>services/geminiService.ts: the data\<close>

text \<open>The caller's image, \<^verbatim>\<open>{ data: string; mimeType: string }\<close>.\<close>

record image_part =
  data :: string
  mimeType :: string

text \<open>
  The image of a request, \<^verbatim>\<open>{ imageBytes, mimeType }\<close>. Its second field is \<^verbatim>\<open>mimeType\<close>
  in the source; it is \<open>imageMimeType\<close> here, apart from the field of \<open>image_part\<close>.
\<close>

record api_image =
  imageBytes :: string
  imageMimeType :: string

text \<open>
  An entry of \<^verbatim>\<open>referenceImages\<close>, \<^verbatim>\<open>{ image, referenceType }\<close>; the field \<^verbatim>\<open>image\<close> is
  \<open>refImage\<close> here, apart from the \<^verbatim>\<open>image\<close> field of the request.
\<close>

record reference_image =
  refImage :: api_image
  referenceType :: string

text \<open>\<^verbatim>\<open>AspectRatio\<close> is a string type of the form's two values \<^verbatim>\<open>'16:9'\<close> and \<^verbatim>\<open>'9:16'\<close>.\<close>

type_synonym AspectRatio = string

record video_config =
  numberOfVideos :: nat
  resolution :: string
  aspectRatio :: AspectRatio
  referenceImages :: "reference_image list option"

text \<open>The argument of \<^verbatim>\<open>ai.models.generateVideos\<close>; an absent \<^verbatim>\<open>image\<close> is \<open>None\<close>.\<close>

record generate_request =
  model :: string
  prompt :: string
  image :: "api_image option"
  config :: video_config

text \<open>
  The operation handle of the backend and what the code reads of it. Every optional
  property is an \<open>option\<close>. The flag \<^verbatim>\<open>done\<close> is \<open>op_done\<close> here (an absent flag is
  falsy, so it is \<open>False\<close>).
\<close>

record video =
  uri :: "string option"
  filterReason :: "string option"

record generated_video =
  video :: "video option"

record response_error =
  message :: "string option"

record videos_response =
  generatedVideos :: "generated_video list option"
  error :: "response_error option"

record video_operation =
  op_done :: bool
  response :: "videos_response option"

text \<open>The answer of \<^verbatim>\<open>fetch\<close>: the \<^verbatim>\<open>ok\<close> flag, the status text and the body as a blob.\<close>

record fetch_response =
  ok :: bool
  statusText :: string
  blob :: string

text \<open>
  What \<^verbatim>\<open>generateVideo\<close> does to the outside, in the order it does it: the calls of the
  SDK, of the progress sink \<^verbatim>\<open>setLoadingMessage\<close>, of the timer, of the console (the label
  only) and of \<^verbatim>\<open>fetch\<close>.
\<close>

datatype event =
    GenerateVideos generate_request
  | SetLoadingMessage string
  | Sleep nat
  | GetVideosOperation video_operation
  | ConsoleError string
  | Fetch string

text \<open>
  The collaborators' answers: the answer to the submission, the answers to the successive
  status re-requests (a finite prefix of them), the answer of \<^verbatim>\<open>fetch\<close> to a URL, and
  \<^verbatim>\<open>URL.createObjectURL\<close>. \<open>Inl e\<close> is a call that throws \<open>e\<close>.
\<close>

record world =
  generateVideosResult :: "exn + video_operation"
  getVideosOperationResults :: "(exn + video_operation) list"
  fetchResult :: "string \<Rightarrow> exn + fetch_response"
  createObjectURL :: "string \<Rightarrow> string"

section \<open>services/geminiService.ts: generateVideo\<close>

definition LOADING_MESSAGES :: "string list" where
  "LOADING_MESSAGES =
    [''Recalling the details of your memory...'',
     ''Gathering the echoes of the past...'',
     ''Focusing on the feeling of the moment...'',
     ''Weaving motion into your photograph...'',
     ''Rendering the memory, this can take a moment...'',
     ''Bringing your memory to life...'']"

subsection \<open>Lines 22 to 62: the request\<close>

definition baseConfig :: "AspectRatio \<Rightarrow> video_config" where
  "baseConfig ar =
    \<lparr>numberOfVideos = 1, resolution = ''720p'', aspectRatio = ar, referenceImages = None\<rparr>"

definition toReferenceImage :: "image_part \<Rightarrow> reference_image" where
  "toReferenceImage img =
    \<lparr>refImage = \<lparr>imageBytes = data img, imageMimeType = mimeType img\<rparr>,
     referenceType = ''ASSET''\<rparr>"

text \<open>
  The argument that the code passes to \<^verbatim>\<open>generateVideos\<close>. In the else branch the object
  literal reads \<^verbatim>\<open>images[0].data\<close>: on an empty list \<^verbatim>\<open>images[0]\<close> is \<^verbatim>\<open>undefined\<close> and the
  read throws a TypeError before any call is made.
\<close>

definition buildRequest :: "image_part list \<Rightarrow> string \<Rightarrow> AspectRatio \<Rightarrow> exn + generate_request" where
  "buildRequest images p ar =
    (if length images > 1 then
       Inr \<lparr>model = ''veo-3.1-generate-preview'', prompt = p, image = None,
            config = (baseConfig ar)\<lparr>referenceImages := Some (map toReferenceImage images)\<rparr>\<rparr>
     else
       (case images of
          [] \<Rightarrow> Inl TypeError
        | img0 # _ \<Rightarrow>
            Inr \<lparr>model = ''veo-3.1-fast-generate-preview'', prompt = p,
                 image = Some \<lparr>imageBytes = data img0, imageMimeType = mimeType img0\<rparr>,
                 config = baseConfig ar\<rparr>))"

subsection \<open>Lines 64 to 81: the poll loop\<close>

record poll_state =
  operation :: video_operation
  messageIndex :: nat
  trace :: "event list"

text \<open>
  How the loop ends on a finite prefix of the backend's answers: the operation is done
  (\<open>Completed\<close>), a status re-request threw (\<open>Thrown\<close>), or the answers ran out while the
  operation was not done (\<open>Pending\<close>: the loop is still waiting).
\<close>

datatype poll_outcome = Completed poll_state | Thrown exn poll_state | Pending poll_state

fun finalState :: "poll_outcome \<Rightarrow> poll_state" where
  "finalState (Completed st) = st"
| "finalState (Thrown e st) = st"
| "finalState (Pending st) = st"

text \<open>The state after the statements before the loop (lines 64 and 65).\<close>

definition pollStart :: "event list \<Rightarrow> video_operation \<Rightarrow> poll_state" where
  "pollStart t operation0 =
    \<lparr>operation = operation0, messageIndex = 0,
     trace = t @ [SetLoadingMessage (LOADING_MESSAGES ! 0)]\<rparr>"

text \<open>The effects of one iteration up to the status re-request (lines 68 to 76).\<close>

definition pollAdvance :: "poll_state \<Rightarrow> poll_state" where
  "pollAdvance st =
    (let i = (messageIndex st + 1) mod length LOADING_MESSAGES
     in st\<lparr>messageIndex := i,
            trace := trace st @ [Sleep 5000, SetLoadingMessage (LOADING_MESSAGES ! i),
                                 GetVideosOperation (operation st)]\<rparr>)"

fun pollLoop :: "poll_state \<Rightarrow> (exn + video_operation) list \<Rightarrow> poll_outcome" where
  "pollLoop st [] = (if op_done (operation st) then Completed st else Pending st)"
| "pollLoop st (r # rs) =
    (if op_done (operation st) then Completed st
     else
       (case r of
          Inl e \<Rightarrow>
            Thrown e ((pollAdvance st)\<lparr>trace := trace (pollAdvance st) @ [ConsoleError ''Polling failed:'']\<rparr>)
        | Inr operation' \<Rightarrow> pollLoop ((pollAdvance st)\<lparr>operation := operation'\<rparr>) rs))"

subsection \<open>Lines 83 to 109: the result\<close>

text \<open>\<^verbatim>\<open>response?.generatedVideos?.[0]\<close>\<close>

definition firstGeneratedVideo :: "videos_response option \<Rightarrow> generated_video option" where
  "firstGeneratedVideo r =
    (case r of
       None \<Rightarrow> None
     | Some resp \<Rightarrow>
         (case generatedVideos resp of
            None \<Rightarrow> None
          | Some [] \<Rightarrow> None
          | Some (g # _) \<Rightarrow> Some g))"

text \<open>\<^verbatim>\<open>generatedVideo?.video?.uri\<close> and \<^verbatim>\<open>generatedVideo?.video?.filterReason\<close>\<close>

definition videoUri :: "generated_video option \<Rightarrow> string option" where
  "videoUri g = Option.bind (Option.bind g video) uri"

definition videoFilterReason :: "generated_video option \<Rightarrow> string option" where
  "videoFilterReason g = Option.bind (Option.bind g video) filterReason"

text \<open>\<^verbatim>\<open>(response as any)?.error?.message\<close>\<close>

definition responseErrorMessage :: "videos_response option \<Rightarrow> string option" where
  "responseErrorMessage r = Option.bind (Option.bind r error) message"

text \<open>\<^verbatim>\<open>!response?.generatedVideos || response.generatedVideos.length === 0\<close>\<close>

definition noGeneratedVideos :: "videos_response option \<Rightarrow> bool" where
  "noGeneratedVideos r =
    (case r of
       None \<Rightarrow> True
     | Some resp \<Rightarrow> (case generatedVideos resp of None \<Rightarrow> True | Some gs \<Rightarrow> length gs = 0))"

text \<open>The messages of the errors that the code throws, named after the spec's categories.\<close>

definition safetyFilteredMessage :: "string \<Rightarrow> string" where
  "safetyFilteredMessage reason =
    ''Video was filtered by safety policy: '' @ reason @ ''. Try a different prompt.''"

definition upstreamErrorMessage :: "string \<Rightarrow> string" where
  "upstreamErrorMessage m = ''Video generation failed: '' @ m"

definition emptyResultMessage :: string where
  "emptyResultMessage =
    ''Video generation completed, but no video was returned. The content may have been filtered by safety policies. Try a different prompt or image.''"

definition malformedResponseMessage :: string where
  "malformedResponseMessage =
    ''Video generation completed, but no download link was found. Check the browser console for details.''"

definition downloadFailedMessage :: "string \<Rightarrow> string" where
  "downloadFailedMessage st = ''Failed to download video: '' @ st"

text \<open>
  The resolution of the final operation, passing the trace: \<open>Inr\<close> the download link, or
  \<open>Inl\<close> the error thrown.
\<close>

definition resolveResult :: "video_operation \<Rightarrow> event list \<Rightarrow> event list \<times> (exn + string)" where
  "resolveResult operation' t =
    (let response' = response operation';
         generatedVideo = firstGeneratedVideo response';
         downloadLink = videoUri generatedVideo
     in if \<not> truthy downloadLink then
          (let t1 = t @ [ConsoleError ''Video generation response:''];
               filterReason' = videoFilterReason generatedVideo;
               errorMessage = responseErrorMessage response'
           in if truthy filterReason' then (t1, Inl (Error (safetyFilteredMessage (the filterReason'))))
              else if truthy errorMessage then (t1, Inl (Error (upstreamErrorMessage (the errorMessage))))
              else if noGeneratedVideos response' then (t1, Inl (Error emptyResultMessage))
              else (t1, Inl (Error malformedResponseMessage)))
        else (t, Inr (the downloadLink)))"

subsection \<open>Lines 111 to 118: the download\<close>

text \<open>
  The progress message, the fetch of the link with the key appended, and the object URL
  of the body (reading the body of an \<^verbatim>\<open>ok\<close> answer is taken to succeed).
\<close>

definition downloadVideo :: "world \<Rightarrow> string \<Rightarrow> string \<Rightarrow> event list \<Rightarrow> event list \<times> (exn + string)" where
  "downloadVideo w apiKey downloadLink t =
    (let url = downloadLink @ ''&key='' @ apiKey;
         t1 = t @ [SetLoadingMessage ''Fetching generated video...'', Fetch url]
     in case fetchResult w url of
          Inl e \<Rightarrow> (t1, Inl e)
        | Inr downloadResponse \<Rightarrow>
            if \<not> ok downloadResponse
            then (t1, Inl (Error (downloadFailedMessage (statusText downloadResponse))))
            else (t1, Inr (createObjectURL w (blob downloadResponse))))"

subsection \<open>The whole function\<close>

text \<open>
  The result is the trace of effects and the outcome: \<open>Some (Inr url)\<close> when the function
  returns \<open>url\<close>, \<open>Some (Inl e)\<close> when it throws \<open>e\<close>, and \<open>None\<close> when it is still polling
  at the end of the backend's answers.
\<close>

definition generateVideo ::
  "image_part list \<Rightarrow> string \<Rightarrow> AspectRatio \<Rightarrow> string \<Rightarrow> world \<Rightarrow> event list \<times> (exn + string) option" where
  "generateVideo images p ar apiKey w =
    (case buildRequest images p ar of
       Inl e \<Rightarrow> ([], Some (Inl e))
     | Inr req \<Rightarrow>
         (case generateVideosResult w of
            Inl e \<Rightarrow> ([GenerateVideos req], Some (Inl e))
          | Inr operation0 \<Rightarrow>
              (case pollLoop (pollStart [GenerateVideos req] operation0) (getVideosOperationResults w) of
                 Pending st \<Rightarrow> (trace st, None)
               | Thrown e st \<Rightarrow> (trace st, Some (Inl e))
               | Completed st \<Rightarrow>
                   (case resolveResult (operation st) (trace st) of
                      (t, Inl e) \<Rightarrow> (t, Some (Inl e))
                    | (t, Inr downloadLink) \<Rightarrow>
                        (case downloadVideo w apiKey downloadLink t of
                           (t', r) \<Rightarrow> (t', Some r))))))"

section \<open>Counting effects, and concrete inputs\<close>

text \<open>
  The number of status re-requests and of fetches in a trace; an answer of the backend
  that keeps the loop going (an operation that is not done); and an operation, images, a
  request and backends to run the definitions on.
\<close>

fun isPoll :: "event \<Rightarrow> bool" where
  "isPoll (GetVideosOperation _) = True"
| "isPoll _ = False"

fun isFetch :: "event \<Rightarrow> bool" where
  "isFetch (Fetch _) = True"
| "isFetch _ = False"

definition pollCount :: "event list \<Rightarrow> nat" where
  "pollCount t = length (filter isPoll t)"

definition fetchCount :: "event list \<Rightarrow> nat" where
  "fetchCount t = length (filter isFetch t)"

definition stillRunning :: "exn + video_operation \<Rightarrow> bool" where
  "stillRunning r = (case r of Inl e \<Rightarrow> False | Inr operation' \<Rightarrow> \<not> op_done operation')"

definition runningOperation :: video_operation where
  "runningOperation = \<lparr>op_done = False, response = None\<rparr>"

definition sampleImage1 :: image_part where
  "sampleImage1 = \<lparr>data = ''AAAA'', mimeType = ''image/png''\<rparr>"

definition sampleImage2 :: image_part where
  "sampleImage2 = \<lparr>data = ''BBBB'', mimeType = ''image/jpeg''\<rparr>"

definition sampleImage3 :: image_part where
  "sampleImage3 = \<lparr>data = ''CCCC'', mimeType = ''image/webp''\<rparr>"

definition sampleRequest :: generate_request where
  "sampleRequest =
    \<lparr>model = ''veo-3.1-fast-generate-preview'', prompt = ''wave'',
     image = Some \<lparr>imageBytes = ''AAAA'', imageMimeType = ''image/png''\<rparr>,
     config = \<lparr>numberOfVideos = 1, resolution = ''720p'', aspectRatio = ''16:9'',
               referenceImages = None\<rparr>\<rparr>"

text \<open>A backend that answers the submission with a running operation, one status
  re-request with a running operation again, and the next one with a transport failure.\<close>

definition failingWorld :: world where
  "failingWorld =
    \<lparr>generateVideosResult = Inr runningOperation,
     getVideosOperationResults =
       [Inr runningOperation, Inl (Error ''Failed to fetch''),
        Inr \<lparr>op_done = True, response = None\<rparr>],
     fetchResult = (\<lambda>url. Inl (Error ''Failed to fetch'')),
     createObjectURL = (\<lambda>b. ''blob:'' @ b)\<rparr>"

section \<open>The resolver in the words of the spec\<close>

text \<open>The five outcomes that section 4.3 of the spec names.\<close>

datatype resolution =
    Success string
  | SafetyFiltered string
  | UpstreamError string
  | EmptyResult
  | MalformedResponse

text \<open>What \<^verbatim>\<open>generateVideo\<close> does for each of them: go on with the link, or throw.\<close>

fun outcomeOf :: "resolution \<Rightarrow> exn + string" where
  "outcomeOf (Success link) = Inr link"
| "outcomeOf (SafetyFiltered reason) = Inl (Error (safetyFilteredMessage reason))"
| "outcomeOf (UpstreamError m) = Inl (Error (upstreamErrorMessage m))"
| "outcomeOf EmptyResult = Inl (Error emptyResultMessage)"
| "outcomeOf MalformedResponse = Inl (Error malformedResponseMessage)"

text \<open>The generated-video list of an operation; the empty list when it is absent.\<close>

definition entries :: "video_operation \<Rightarrow> generated_video list" where
  "entries operation' =
    (case response operation' of
       None \<Rightarrow> []
     | Some resp \<Rightarrow> (case generatedVideos resp of None \<Rightarrow> [] | Some gs \<Rightarrow> gs))"

text \<open>A value that is present and not empty.\<close>

definition nonEmpty :: "string option \<Rightarrow> string option" where
  "nonEmpty v = (case v of None \<Rightarrow> None | Some s \<Rightarrow> if s = [] then None else Some s)"

text \<open>The non-empty result locator of an entry, and its safety-filter reason.\<close>

definition entryLocator :: "generated_video \<Rightarrow> string option" where
  "entryLocator g = (case video g of None \<Rightarrow> None | Some v \<Rightarrow> nonEmpty (uri v))"

definition entryFilterReason :: "generated_video \<Rightarrow> string option" where
  "entryFilterReason g = (case video g of None \<Rightarrow> None | Some v \<Rightarrow> nonEmpty (filterReason v))"

text \<open>The top-level error message of the response.\<close>

definition topLevelError :: "video_operation \<Rightarrow> string option" where
  "topLevelError operation' =
    (case response operation' of
       None \<Rightarrow> None
     | Some resp \<Rightarrow> (case error resp of None \<Rightarrow> None | Some e \<Rightarrow> nonEmpty (message e)))"

text \<open>The first entry of a list that has the property \<open>f\<close>, with its value.\<close>

fun firstWith :: "('a \<Rightarrow> 'b option) \<Rightarrow> 'a list \<Rightarrow> 'b option" where
  "firstWith f [] = None"
| "firstWith f (x # xs) = (case f x of Some y \<Rightarrow> Some y | None \<Rightarrow> firstWith f xs)"

text \<open>
  The five-way classification as the claim words it: case 1 and case 2 ask for
  \<^emph>\<open>a\<close> generated-video entry with a locator, or with a filter reason.
\<close>

definition classifyAnyEntry :: "video_operation \<Rightarrow> resolution" where
  "classifyAnyEntry operation' =
    (case firstWith entryLocator (entries operation') of
       Some link \<Rightarrow> Success link
     | None \<Rightarrow>
         (case firstWith entryFilterReason (entries operation') of
            Some reason \<Rightarrow> SafetyFiltered reason
          | None \<Rightarrow>
              (case topLevelError operation' of
                 Some m \<Rightarrow> UpstreamError m
               | None \<Rightarrow> if entries operation' = [] then EmptyResult else MalformedResponse)))"

text \<open>The same classification, with case 1 and case 2 asking about the first entry only.\<close>

definition classifyFirstEntry :: "video_operation \<Rightarrow> resolution" where
  "classifyFirstEntry operation' =
    (case firstWith entryLocator (take 1 (entries operation')) of
       Some link \<Rightarrow> Success link
     | None \<Rightarrow>
         (case firstWith entryFilterReason (take 1 (entries operation')) of
            Some reason \<Rightarrow> SafetyFiltered reason
          | None \<Rightarrow>
              (case topLevelError operation' of
                 Some m \<Rightarrow> UpstreamError m
               | None \<Rightarrow> if entries operation' = [] then EmptyResult else MalformedResponse)))"

text \<open>Resolving the same operation \<open>n\<close> times in a row, each time from the trace that the
  resolution before left: the outcomes, in order.\<close>

fun resolveRepeatedly :: "nat \<Rightarrow> video_operation \<Rightarrow> event list \<Rightarrow> (exn + string) list" where
  "resolveRepeatedly 0 operation' t = []"
| "resolveRepeatedly (Suc n) operation' t =
    snd (resolveResult operation' t) # resolveRepeatedly n operation' (fst (resolveResult operation' t))"

text \<open>A completed operation whose first entry has no locator and whose second entry has one.\<close>

definition secondEntryOperation :: video_operation where
  "secondEntryOperation =
    \<lparr>op_done = True,
     response = Some
       \<lparr>generatedVideos = Some
          [\<lparr>video = Some \<lparr>uri = None, filterReason = None\<rparr>\<rparr>,
           \<lparr>video = Some \<lparr>uri = Some ''https://example.com/v.mp4'', filterReason = None\<rparr>\<rparr>],
        error = None\<rparr>\<rparr>"

text \<open>A completed operation whose only entry has a filter reason and no locator.\<close>

definition filteredOperation :: video_operation where
  "filteredOperation =
    \<lparr>op_done = True,
     response = Some
       \<lparr>generatedVideos = Some [\<lparr>video = Some \<lparr>uri = None, filterReason = Some ''violence''\<rparr>\<rparr>],
        error = None\<rparr>\<rparr>"

text \<open>A completed operation with one entry and its locator.\<close>

definition readyOperation :: video_operation where
  "readyOperation =
    \<lparr>op_done = True,
     response = Some
       \<lparr>generatedVideos = Some
          [\<lparr>video = Some \<lparr>uri = Some ''https://example.com/v.mp4?alt=media'', filterReason = None\<rparr>\<rparr>],
        error = None\<rparr>\<rparr>"

text \<open>Backends that answer the submission with these operations; the second one answers
  the download with status 403.\<close>

definition filteredWorld :: world where
  "filteredWorld =
    \<lparr>generateVideosResult = Inr filteredOperation,
     getVideosOperationResults = [],
     fetchResult = (\<lambda>url. Inr \<lparr>ok = True, statusText = ''OK'', blob = ''mp4''\<rparr>),
     createObjectURL = (\<lambda>b. ''blob:'' @ b)\<rparr>"

definition forbiddenWorld :: world where
  "forbiddenWorld =
    \<lparr>generateVideosResult = Inr readyOperation,
     getVideosOperationResults = [],
     fetchResult = (\<lambda>url. Inr \<lparr>ok = False, statusText = ''Forbidden'', blob = ''''\<rparr>),
     createObjectURL = (\<lambda>b. ''blob:'' @ b)\<rparr>"

section \<open>components/VideoGeneratorForm.tsx\<close>

text \<open>
  A \<^verbatim>\<open>File\<close> of the browser: its \<^verbatim>\<open>name\<close>, \<^verbatim>\<open>size\<close> in bytes and \<^verbatim>\<open>type\<close> (here
  \<open>fileName\<close>, \<open>fileSize\<close>, \<open>fileType\<close>).
\<close>

record File =
  fileName :: string
  fileSize :: nat
  fileType :: string

text \<open>
  The state of the component, one field per \<^verbatim>\<open>useState\<close>. The states \<^verbatim>\<open>prompt\<close>,
  \<^verbatim>\<open>aspectRatio\<close> and \<^verbatim>\<open>error\<close> are \<open>formPrompt\<close>, \<open>formAspectRatio\<close> and \<open>formError\<close> here,
  apart from the fields of the request and of the response.
\<close>

record form_state =
  imageFiles :: "File list"
  imagePreviews :: "string list"
  formPrompt :: string
  formAspectRatio :: AspectRatio
  formError :: "string option"
  suggestions :: "string list"
  isSuggesting :: bool

definition initialForm :: form_state where
  "initialForm =
    \<lparr>imageFiles = [], imagePreviews = [],
     formPrompt = ''Bring this memory to life with gentle, nostalgic motion.'',
     formAspectRatio = ''16:9'', formError = None, suggestions = [], isSuggesting = False\<rparr>"

text \<open>
  \<^verbatim>\<open>handleFileChange\<close>. \<open>files\<close> is \<^verbatim>\<open>event.target.files\<close> (\<open>None\<close> when it is \<^verbatim>\<open>null\<close>);
  \<open>objectURL\<close> is \<^verbatim>\<open>URL.createObjectURL\<close> on a file.
\<close>

definition handleFileChange :: "(File \<Rightarrow> string) \<Rightarrow> File list option \<Rightarrow> form_state \<Rightarrow> form_state" where
  "handleFileChange objectURL files st =
    (case files of
       None \<Rightarrow> st
     | Some fileArray \<Rightarrow>
         if length fileArray > 0 then
           if length (imageFiles st) + length fileArray > 3
           then st\<lparr>formError := Some ''You can upload a maximum of 3 images.''\<rparr>
           else
             (case List.find (\<lambda>f. fileSize f > 10 * 1024 * 1024) fileArray of
                Some oversizedFile \<Rightarrow>
                  st\<lparr>formError :=
                       Some (''File '' @ [CHR 0x22] @ fileName oversizedFile @ [CHR 0x22]
                             @ '' exceeds 10MB limit.'')\<rparr>
              | None \<Rightarrow>
                  st\<lparr>formError := None,
                     imageFiles := imageFiles st @ fileArray,
                     imagePreviews := imagePreviews st @ map objectURL fileArray,
                     suggestions := []\<rparr>)
         else st)"

text \<open>\<^verbatim>\<open>xs.filter((_, i) => i !== index)\<close>\<close>

definition removeAt :: "nat \<Rightarrow> 'a list \<Rightarrow> 'a list" where
  "removeAt index xs = map fst (filter (\<lambda>(x, i). i \<noteq> index) (zip xs [0..<length xs]))"

text \<open>\<^verbatim>\<open>handleRemoveImage\<close> (the revoked object URL is not part of the state).\<close>

definition handleRemoveImage :: "nat \<Rightarrow> form_state \<Rightarrow> form_state" where
  "handleRemoveImage index st =
    st\<lparr>imageFiles := removeAt index (imageFiles st),
       imagePreviews := removeAt index (imagePreviews st),
       suggestions := []\<rparr>"

text \<open>
  \<^verbatim>\<open>handleSuggestPrompts\<close>, with the answer of \<^verbatim>\<open>suggestPrompts\<close> on the first image:
  \<open>Inl m\<close> when it throws an error with message \<open>m\<close>.
\<close>

definition handleSuggestPrompts :: "string + string list \<Rightarrow> form_state \<Rightarrow> form_state" where
  "handleSuggestPrompts answer st =
    (if length (imageFiles st) = 0 then st
     else
       (case answer of
          Inl m \<Rightarrow>
            st\<lparr>isSuggesting := False, formError := Some (''Failed to get suggestions: '' @ m),
               suggestions := []\<rparr>
        | Inr newSuggestions \<Rightarrow>
            st\<lparr>isSuggesting := False, formError := None, suggestions := newSuggestions\<rparr>))"

text \<open>
  \<^verbatim>\<open>Promise.all\<close> over the conversions of the files: all the parts in the order of the
  files, or the message of the first conversion that fails.
\<close>

fun allParts :: "(string + image_part) list \<Rightarrow> string + image_part list" where
  "allParts [] = Inr []"
| "allParts (Inl m # rs) = Inl m"
| "allParts (Inr part # rs) = (case allParts rs of Inl m \<Rightarrow> Inl m | Inr parts \<Rightarrow> Inr (part # parts))"

text \<open>A call \<^verbatim>\<open>onGenerate(imageParts, prompt, aspectRatio)\<close>.\<close>

datatype generate_call = OnGenerate "image_part list" string AspectRatio

fun callImages :: "generate_call \<Rightarrow> image_part list" where
  "callImages (OnGenerate imageParts p ar) = imageParts"

text \<open>
  \<^verbatim>\<open>handleSubmit\<close>: the new state, and the call of \<^verbatim>\<open>onGenerate\<close> if one is made.
  \<open>fileToGenerativePart\<close> is the conversion of a file (\<open>Inl m\<close> when it rejects with an error
  of message \<open>m\<close>).
\<close>

definition handleSubmit ::
  "(File \<Rightarrow> string + image_part) \<Rightarrow> form_state \<Rightarrow> form_state \<times> generate_call option" where
  "handleSubmit fileToGenerativePart st =
    (if length (imageFiles st) = 0 \<or> formPrompt st = []
     then (st\<lparr>formError := Some ''Please provide at least one image and a prompt.''\<rparr>, None)
     else
       (case allParts (map fileToGenerativePart (imageFiles st)) of
          Inl m \<Rightarrow> (st\<lparr>formError := Some (''Failed to process images: '' @ m)\<rparr>, None)
        | Inr imageParts \<Rightarrow>
            (st\<lparr>formError := None\<rparr>,
             Some (OnGenerate imageParts (formPrompt st) (formAspectRatio st)))))"

text \<open>What the user can do to the form, and a session of such events from a given state:
  the final state and the calls of \<^verbatim>\<open>onGenerate\<close> made, in order.\<close>

datatype form_event =
    FileChange "File list option"
  | RemoveImage nat
  | SetPrompt string
  | SetAspectRatio AspectRatio
  | SuggestPrompts "string + string list"
  | Submit

fun formStep ::
  "(File \<Rightarrow> string) \<Rightarrow> (File \<Rightarrow> string + image_part) \<Rightarrow> form_event \<Rightarrow> form_state
    \<Rightarrow> form_state \<times> generate_call option" where
  "formStep objectURL conv (FileChange files) st = (handleFileChange objectURL files st, None)"
| "formStep objectURL conv (RemoveImage index) st = (handleRemoveImage index st, None)"
| "formStep objectURL conv (SetPrompt v) st = (st\<lparr>formPrompt := v\<rparr>, None)"
| "formStep objectURL conv (SetAspectRatio ratio) st = (st\<lparr>formAspectRatio := ratio\<rparr>, None)"
| "formStep objectURL conv (SuggestPrompts answer) st = (handleSuggestPrompts answer st, None)"
| "formStep objectURL conv Submit st = handleSubmit conv st"

fun runForm ::
  "(File \<Rightarrow> string) \<Rightarrow> (File \<Rightarrow> string + image_part) \<Rightarrow> form_event list \<Rightarrow> form_state
    \<Rightarrow> form_state \<times> generate_call list" where
  "runForm objectURL conv [] st = (st, [])"
| "runForm objectURL conv (ev # evs) st =
    (case formStep objectURL conv ev st of
       (st', call) \<Rightarrow>
         (case runForm objectURL conv evs st' of
            (st'', calls) \<Rightarrow> (st'', (case call of None \<Rightarrow> [] | Some c \<Rightarrow> [c]) @ calls)))"

definition callInRange :: "generate_call \<Rightarrow> bool" where
  "callInRange c = (1 \<le> length (callImages c) \<and> length (callImages c) \<le> 3)"

text \<open>Files and helpers for concrete sessions.\<close>

definition photo :: "string \<Rightarrow> File" where
  "photo n = \<lparr>fileName = n, fileSize = 2048, fileType = ''image/png''\<rparr>"

definition sampleObjectURL :: "File \<Rightarrow> string" where
  "sampleObjectURL f = ''blob:'' @ fileName f"

definition sampleConversion :: "File \<Rightarrow> string + image_part" where
  "sampleConversion f = Inr \<lparr>data = fileName f, mimeType = fileType f\<rparr>"

section \<open>api/verify-password.ts\<close>

text \<open>The values that the \<^verbatim>\<open>password\<close> property of a request body can have.\<close>

datatype js_value = JUndefined | JNull | JBoolean bool | JNumber int | JString string | JObject

fun truthyValue :: "js_value \<Rightarrow> bool" where
  "truthyValue JUndefined = False"
| "truthyValue JNull = False"
| "truthyValue (JBoolean b) = b"
| "truthyValue (JNumber n) = (n \<noteq> 0)"
| "truthyValue (JString s) = (s \<noteq> [])"
| "truthyValue JObject = True"

text \<open>\<^verbatim>\<open>typeof v === 'string'\<close>\<close>

fun isString :: "js_value \<Rightarrow> bool" where
  "isString (JString s) = True"
| "isString _ = False"

text \<open>
  \<^verbatim>\<open>req.body\<close>: \<open>NoBody\<close> when it is \<^verbatim>\<open>undefined\<close> or \<^verbatim>\<open>null\<close> (the destructuring
  \<^verbatim>\<open>const { password } = req.body\<close> then throws a TypeError), \<open>Body v\<close> for any other body,
  \<open>v\<close> being what its property \<^verbatim>\<open>password\<close> reads as.
\<close>

datatype request_body = NoBody | Body js_value

text \<open>The request: \<^verbatim>\<open>req.method\<close> (here \<open>httpMethod\<close>) and \<^verbatim>\<open>req.body\<close>.\<close>

record verify_request =
  httpMethod :: string
  body :: request_body

text \<open>The two variables of \<^verbatim>\<open>process.env\<close> that the handler reads.\<close>

record environment =
  ACCESS_PASSWORD :: "string option"
  GEMINI_API_KEY :: "string option"

datatype json_reply = ErrorReply string | ApiKeyReply string

record http_reply =
  status :: nat
  json :: json_reply

definition handler :: "verify_request \<Rightarrow> environment \<Rightarrow> exn + http_reply" where
  "handler req env =
    (if httpMethod req \<noteq> ''POST'' then Inr \<lparr>status = 405, json = ErrorReply ''Method not allowed''\<rparr>
     else
       (case body req of
          NoBody \<Rightarrow> Inl TypeError
        | Body password \<Rightarrow>
            if \<not> truthyValue password \<or> \<not> isString password
            then Inr \<lparr>status = 400, json = ErrorReply ''Password is required''\<rparr>
            else
              (let accessPassword = ACCESS_PASSWORD env;
                   apiKey = GEMINI_API_KEY env
               in if \<not> truthy accessPassword \<or> \<not> truthy apiKey
                  then Inr \<lparr>status = 500,
                            json = ErrorReply ''Server is not configured. Set ACCESS_PASSWORD and GEMINI_API_KEY in Vercel environment variables.''\<rparr>
                  else if password \<noteq> JString (the accessPassword)
                  then Inr \<lparr>status = 401, json = ErrorReply ''Invalid password''\<rparr>
                  else Inr \<lparr>status = 200, json = ApiKeyReply (the apiKey)\<rparr>)))"

text \<open>A form with two photos selected, and a session: two photos are added, two more are
  refused, and the form is submitted.\<close>

definition twoPhotos :: form_state where
  "twoPhotos = initialForm\<lparr>imageFiles := [photo ''a.png'', photo ''b.png''],
                           imagePreviews := [''blob:a.png'', ''blob:b.png'']\<rparr>"

definition sampleSession :: "form_event list" where
  "sampleSession =
    [FileChange (Some [photo ''a.png'', photo ''b.png'']),
     FileChange (Some [photo ''c.png'', photo ''d.png'']),
     Submit]"

text \<open>A request with a body that has no password, to a server that has no configuration;
  and a configured server.\<close>

definition noPasswordRequest :: verify_request where
  "noPasswordRequest = \<lparr>httpMethod = ''POST'', body = Body JUndefined\<rparr>"

definition unconfigured :: environment where
  "unconfigured = \<lparr>ACCESS_PASSWORD = None, GEMINI_API_KEY = None\<rparr>"

definition configured :: environment where
  "configured = \<lparr>ACCESS_PASSWORD = Some ''sesame'', GEMINI_API_KEY = Some ''AIza-key''\<rparr>"

section \<open>Auxiliary facts\<close>

lemma length_LOADING_MESSAGES: "length LOADING_MESSAGES = 6"
  by (simp add: LOADING_MESSAGES_def)

lemma pollAdvance_fields:
  "operation (pollAdvance st) = operation st"
  "messageIndex (pollAdvance st) = (messageIndex st + 1) mod 6"
  "trace (pollAdvance st) =
     trace st @ [Sleep 5000, SetLoadingMessage (LOADING_MESSAGES ! ((messageIndex st + 1) mod 6)),
                 GetVideosOperation (operation st)]"
  by (simp_all add: pollAdvance_def Let_def length_LOADING_MESSAGES)

lemma pollLoop_trace_prefix: "\<exists>t'. trace (finalState (pollLoop st rs)) = trace st @ t'"
proof (induction rs arbitrary: st)
  case Nil
  show ?case by simp
next
  case (Cons r rs)
  show ?case
  proof (cases "op_done (operation st)")
    case True
    then show ?thesis by simp
  next
    case False
    show ?thesis
    proof (cases r)
      case (Inl e)
      with False show ?thesis by (simp add: pollAdvance_fields)
    next
      case (Inr op')
      from Cons.IH [of "(pollAdvance st)\<lparr>operation := op'\<rparr>"]
      obtain t' where "trace (finalState (pollLoop ((pollAdvance st)\<lparr>operation := op'\<rparr>) rs))
        = trace ((pollAdvance st)\<lparr>operation := op'\<rparr>) @ t'" by blast
      with False Inr show ?thesis by (simp add: pollAdvance_fields)
    qed
  qed
qed

lemma resolveResult_trace_prefix: "\<exists>t'. fst (resolveResult op t) = t @ t'"
  by (simp add: resolveResult_def Let_def)

lemma downloadVideo_trace_prefix: "\<exists>t'. fst (downloadVideo w k l t) = t @ t'"
  by (simp add: downloadVideo_def Let_def split: sum.splits)

lemma generateVideo_trace_head:
  assumes "buildRequest images p ar = Inr req"
  shows "\<exists>t. fst (generateVideo images p ar k w) = GenerateVideos req # t"
proof (cases "generateVideosResult w")
  case (Inl e)
  with assms show ?thesis by (simp add: generateVideo_def)
next
  case (Inr op0)
  let ?out = "pollLoop (pollStart [GenerateVideos req] op0) (getVideosOperationResults w)"
  obtain t1 where t1: "trace (finalState ?out) = GenerateVideos req # t1"
    using pollLoop_trace_prefix [of "pollStart [GenerateVideos req] op0" "getVideosOperationResults w"]
    by (auto simp: pollStart_def)
  show ?thesis
  proof (cases ?out)
    case (Completed st)
    with t1 have st: "trace st = GenerateVideos req # t1" by simp
    obtain t2 r where rr: "resolveResult (operation st) (trace st) = (t2, r)" by (cases "resolveResult (operation st) (trace st)")
    obtain t2' where t2: "t2 = trace st @ t2'"
      using resolveResult_trace_prefix [of "operation st" "trace st"] rr by auto
    show ?thesis
    proof (cases r)
      case (Inl e)
      with assms Inr Completed rr t2 st show ?thesis by (simp add: generateVideo_def)
    next
      case (Inr l)
      obtain t3 r3 where dd: "downloadVideo w k l t2 = (t3, r3)" by (cases "downloadVideo w k l t2")
      obtain t3' where "t3 = t2 @ t3'" using downloadVideo_trace_prefix [of w k l t2] dd by auto
      with assms \<open>generateVideosResult w = Inr op0\<close> Completed rr t2 st Inr dd show ?thesis
        by (simp add: generateVideo_def)
    qed
  next
    case (Thrown e st)
    with assms Inr t1 show ?thesis by (simp add: generateVideo_def)
  next
    case (Pending st)
    with assms Inr t1 show ?thesis by (simp add: generateVideo_def)
  qed
qed

lemma pollCount_simps:
  "pollCount [] = 0"
  "pollCount (t @ u) = pollCount t + pollCount u"
  "pollCount (GetVideosOperation x # t) = Suc (pollCount t)"
  "pollCount (Sleep n # t) = pollCount t"
  "pollCount (SetLoadingMessage m # t) = pollCount t"
  "pollCount (ConsoleError m # t) = pollCount t"
  "pollCount (GenerateVideos q # t) = pollCount t"
  "pollCount (Fetch u' # t) = pollCount t"
  by (simp_all add: pollCount_def)

lemma fetchCount_simps:
  "fetchCount [] = 0"
  "fetchCount (t @ u) = fetchCount t + fetchCount u"
  "fetchCount (GetVideosOperation x # t) = fetchCount t"
  "fetchCount (Sleep n # t) = fetchCount t"
  "fetchCount (SetLoadingMessage m # t) = fetchCount t"
  "fetchCount (ConsoleError m # t) = fetchCount t"
  "fetchCount (GenerateVideos q # t) = fetchCount t"
  "fetchCount (Fetch u' # t) = Suc (fetchCount t)"
  by (simp_all add: fetchCount_def)

lemma pollLoop_running_prefix:
  assumes "\<not> op_done (operation st)" and "list_all stillRunning rs1"
  shows "\<exists>st'. (\<forall>rs. pollLoop st (rs1 @ rs) = pollLoop st' rs)
             \<and> \<not> op_done (operation st')
             \<and> pollCount (trace st') = pollCount (trace st) + length rs1
             \<and> fetchCount (trace st') = fetchCount (trace st)"
  using assms
proof (induction rs1 arbitrary: st)
  case Nil
  then show ?case by (intro exI [of _ st]) simp
next
  case (Cons r rs1)
  from Cons.prems have sr: "stillRunning r" and rest: "list_all stillRunning rs1"
    by simp_all
  from sr have "\<exists>op'. r = Inr op' \<and> \<not> op_done op'"
    by (cases r) (simp_all add: stillRunning_def)
  then obtain op' where r: "r = Inr op'" and op': "\<not> op_done op'" by blast
  let ?st1 = "(pollAdvance st)\<lparr>operation := op'\<rparr>"
  have "\<not> op_done (operation ?st1)" using op' by simp
  from Cons.IH [OF this rest] obtain st' where
    st': "\<forall>rs. pollLoop ?st1 (rs1 @ rs) = pollLoop st' rs"
      "\<not> op_done (operation st')"
      "pollCount (trace st') = pollCount (trace ?st1) + length rs1"
      "fetchCount (trace st') = fetchCount (trace ?st1)"
    by blast
  have a: "\<forall>rs. pollLoop st ((r # rs1) @ rs) = pollLoop st' rs"
    using st'(1) r Cons.prems(1) by simp
  have b: "pollCount (trace st') = pollCount (trace st) + length (r # rs1)"
    using st'(3) by (simp add: pollAdvance_fields pollCount_simps)
  have c: "fetchCount (trace st') = fetchCount (trace st)"
    using st'(4) by (simp add: pollAdvance_fields fetchCount_simps)
  from a b c st'(2) show ?case by blast
qed

lemma pollLoop_invariant:
  assumes "messageIndex st = pollCount (trace st) mod 6"
  shows "messageIndex (finalState (pollLoop st rs)) = pollCount (trace (finalState (pollLoop st rs))) mod 6"
  using assms
proof (induction rs arbitrary: st)
  case Nil
  then show ?case by simp
next
  case (Cons r rs)
  have adv: "messageIndex (pollAdvance st) = pollCount (trace (pollAdvance st)) mod 6"
    using Cons.prems by (simp add: pollAdvance_fields pollCount_simps mod_simps)
  show ?case
  proof (cases "op_done (operation st)")
    case True
    with Cons.prems show ?thesis by simp
  next
    case False
    show ?thesis
    proof (cases r)
      case (Inl e)
      with False adv show ?thesis by (simp add: pollCount_simps)
    next
      case (Inr op')
      have "messageIndex ((pollAdvance st)\<lparr>operation := op'\<rparr>)
          = pollCount (trace ((pollAdvance st)\<lparr>operation := op'\<rparr>)) mod 6"
        using adv by simp
      from Cons.IH [OF this] False Inr show ?thesis by simp
    qed
  qed
qed

lemma truthy_nonEmpty: "truthy v = (nonEmpty v \<noteq> None)" "truthy v \<Longrightarrow> nonEmpty v = Some (the v)"
  by (auto simp: truthy_def nonEmpty_def split: option.splits)

lemma messages_distinct:
  "safetyFilteredMessage r \<noteq> upstreamErrorMessage m"
  "safetyFilteredMessage r \<noteq> emptyResultMessage"
  "safetyFilteredMessage r \<noteq> malformedResponseMessage"
  "upstreamErrorMessage m \<noteq> emptyResultMessage"
  "upstreamErrorMessage m \<noteq> malformedResponseMessage"
  "emptyResultMessage \<noteq> malformedResponseMessage"
  "downloadFailedMessage s \<noteq> safetyFilteredMessage r"
  "downloadFailedMessage s \<noteq> upstreamErrorMessage m"
  "downloadFailedMessage s \<noteq> emptyResultMessage"
  "downloadFailedMessage s \<noteq> malformedResponseMessage"
  by (simp_all add: safetyFilteredMessage_def upstreamErrorMessage_def emptyResultMessage_def
      malformedResponseMessage_def downloadFailedMessage_def)

lemma messages_inject:
  "(safetyFilteredMessage r = safetyFilteredMessage r') = (r = r')"
  "(upstreamErrorMessage m = upstreamErrorMessage m') = (m = m')"
  by (simp_all add: safetyFilteredMessage_def upstreamErrorMessage_def)

lemma outcomeOf_inject: "(outcomeOf a = outcomeOf b) = (a = b)"
  using messages_distinct(1-6) [THEN not_sym] 
  by (cases a; cases b) (simp_all add: messages_distinct messages_inject)

lemma outcomeOf_not_download: "outcomeOf c \<noteq> Inl (Error (downloadFailedMessage s))"
  by (cases c) (simp_all add: messages_distinct(7-10) [THEN not_sym])

lemma resolveResult_classify: "snd (resolveResult op t) = outcomeOf (classifyFirstEntry op)"
proof (cases "response op")
  case None
  then show ?thesis
    by (simp add: resolveResult_def classifyFirstEntry_def entries_def topLevelError_def
        firstGeneratedVideo_def videoUri_def videoFilterReason_def responseErrorMessage_def
        noGeneratedVideos_def truthy_def)
next
  case (Some resp)
  show ?thesis
  proof (cases "generatedVideos resp")
    case None
    with Some show ?thesis
    by (auto simp add: resolveResult_def classifyFirstEntry_def entries_def topLevelError_def
        firstGeneratedVideo_def videoUri_def videoFilterReason_def responseErrorMessage_def
        noGeneratedVideos_def truthy_def nonEmpty_def Let_def split: option.splits)
  next
    case gs: (Some gs)
    show ?thesis
    proof (cases gs)
      case Nil
      with Some gs show ?thesis
        by (auto simp add: resolveResult_def classifyFirstEntry_def entries_def topLevelError_def
        firstGeneratedVideo_def videoUri_def videoFilterReason_def responseErrorMessage_def
        noGeneratedVideos_def truthy_def nonEmpty_def Let_def split: option.splits)
    next
      case (Cons g gs')
      with Some gs show ?thesis
        by (auto simp add: resolveResult_def classifyFirstEntry_def entries_def topLevelError_def
        firstGeneratedVideo_def videoUri_def videoFilterReason_def responseErrorMessage_def
        noGeneratedVideos_def truthy_def nonEmpty_def Let_def entryLocator_def entryFilterReason_def split: option.splits)
    qed
  qed
qed

lemma resolveResult_fetchCount: "fetchCount (fst (resolveResult op t)) = fetchCount t"
  by (simp add: resolveResult_def Let_def fetchCount_simps)

lemma resolveResult_success_trace:
  "snd (resolveResult op t) = Inr l \<Longrightarrow> fst (resolveResult op t) = t"
  by (simp add: resolveResult_def Let_def split: if_splits)

lemma pollLoop_fetchCount:
  "fetchCount (trace (finalState (pollLoop st rs))) = fetchCount (trace st)"
proof (induction rs arbitrary: st)
  case Nil
  show ?case by simp
next
  case (Cons r rs)
  show ?case
  proof (cases "op_done (operation st)")
    case True
    then show ?thesis by simp
  next
    case False
    show ?thesis
    proof (cases r)
      case (Inl e)
      with False show ?thesis by (simp add: pollAdvance_fields fetchCount_simps)
    next
      case (Inr op')
      with False Cons.IH [of "(pollAdvance st)\<lparr>operation := op'\<rparr>"] show ?thesis
        by (simp add: pollAdvance_fields fetchCount_simps)
    qed
  qed
qed

lemma pollStart_fetchCount: "fetchCount (trace (pollStart [GenerateVideos req] op0)) = 0"
  by (simp add: pollStart_def fetchCount_simps)

lemma generateVideo_completed:
  assumes "buildRequest images p ar = Inr req"
    and "generateVideosResult w = Inr operation0"
    and "pollLoop (pollStart [GenerateVideos req] operation0) (getVideosOperationResults w) = Completed st"
  shows "fetchCount (trace st) = 0"
    and "snd (resolveResult (operation st) (trace st)) = Inl e \<Longrightarrow>
          generateVideo images p ar apiKey w = (fst (resolveResult (operation st) (trace st)), Some (Inl e))"
    and "snd (resolveResult (operation st) (trace st)) = Inr l \<Longrightarrow>
          generateVideo images p ar apiKey w =
            (fst (downloadVideo w apiKey l (trace st)), Some (snd (downloadVideo w apiKey l (trace st))))"
proof -
  from pollLoop_fetchCount [of "pollStart [GenerateVideos req] operation0" "getVideosOperationResults w"] assms(3)
  show "fetchCount (trace st) = 0" by (simp add: pollStart_fetchCount)
next
  assume "snd (resolveResult (operation st) (trace st)) = Inl e"
  then show "generateVideo images p ar apiKey w = (fst (resolveResult (operation st) (trace st)), Some (Inl e))"
    using assms by (cases "resolveResult (operation st) (trace st)") (simp add: generateVideo_def)
next
  assume r: "snd (resolveResult (operation st) (trace st)) = Inr l"
  from resolveResult_success_trace [OF r] r
  have "resolveResult (operation st) (trace st) = (trace st, Inr l)"
    by (cases "resolveResult (operation st) (trace st)") simp
  then show "generateVideo images p ar apiKey w =
            (fst (downloadVideo w apiKey l (trace st)), Some (snd (downloadVideo w apiKey l (trace st))))"
    using assms by (cases "downloadVideo w apiKey l (trace st)") (simp add: generateVideo_def)
qed

lemma removeAt_length: "length (removeAt i xs) \<le> length xs"
proof -
  have "length (filter (\<lambda>(x, j). j \<noteq> i) (zip xs [0..<length xs])) \<le> length (zip xs [0..<length xs])"
    by (rule length_filter_le)
  then show ?thesis by (simp add: removeAt_def)
qed

lemma allParts_length: "allParts rs = Inr parts \<Longrightarrow> length parts = length rs"
  by (induction rs arbitrary: parts rule: allParts.induct) (auto split: sum.splits)

lemma handleFileChange_bound:
  "length (imageFiles st) \<le> 3 \<Longrightarrow> length (imageFiles (handleFileChange objectURL files st)) \<le> 3"
  by (simp add: handleFileChange_def split: option.splits)

lemma handleRemoveImage_bound:
  "length (imageFiles st) \<le> 3 \<Longrightarrow> length (imageFiles (handleRemoveImage i st)) \<le> 3"
  using removeAt_length [of i "imageFiles st"] by (simp add: handleRemoveImage_def)

lemma handleSuggestPrompts_files: "imageFiles (handleSuggestPrompts answer st) = imageFiles st"
  by (simp add: handleSuggestPrompts_def split: sum.splits)

lemma handleSubmit_files: "imageFiles (fst (handleSubmit conv st)) = imageFiles st"
  by (simp add: handleSubmit_def split: sum.splits)

lemma handleSubmit_call:
  assumes "length (imageFiles st) \<le> 3" and "snd (handleSubmit conv st) = Some c"
  shows "callInRange c"
proof -
  from assms(2) obtain parts where
    ne: "length (imageFiles st) \<noteq> 0"
    and parts: "allParts (map conv (imageFiles st)) = Inr parts"
    and c: "c = OnGenerate parts (formPrompt st) (formAspectRatio st)"
    by (auto simp: handleSubmit_def split: if_splits sum.splits)
  from allParts_length [OF parts] have "length parts = length (imageFiles st)" by simp
  moreover from ne have "1 \<le> length (imageFiles st)" by (cases "imageFiles st") simp_all
  ultimately show ?thesis using assms(1) c by (simp add: callInRange_def)
qed

lemma formStep_bound:
  "length (imageFiles st) \<le> 3 \<Longrightarrow> length (imageFiles (fst (formStep objectURL conv ev st))) \<le> 3"
  by (cases ev)
     (simp_all add: handleFileChange_bound handleRemoveImage_bound handleSuggestPrompts_files
        handleSubmit_files)

lemma formStep_call:
  "length (imageFiles st) \<le> 3 \<Longrightarrow> snd (formStep objectURL conv ev st) = Some c \<Longrightarrow> callInRange c"
  by (cases ev) (simp_all add: handleSubmit_call)

lemma runForm_bound:
  "length (imageFiles st) \<le> 3 \<Longrightarrow>
     list_all callInRange (snd (runForm objectURL conv evs st))
     \<and> length (imageFiles (fst (runForm objectURL conv evs st))) \<le> 3"
proof (induction evs arbitrary: st)
  case Nil
  then show ?case by simp
next
  case (Cons ev evs)
  obtain st' call where step: "formStep objectURL conv ev st = (st', call)"
    by (cases "formStep objectURL conv ev st")
  obtain st'' calls where rest: "runForm objectURL conv evs st' = (st'', calls)"
    by (cases "runForm objectURL conv evs st'")
  from formStep_bound [OF Cons.prems, of objectURL conv ev] step have b: "length (imageFiles st') \<le> 3"
    by simp
  from Cons.IH [OF b] rest have ih: "list_all callInRange calls" "length (imageFiles st'') \<le> 3"
    by simp_all
  have "callInRange c" if "call = Some c" for c
    using formStep_call [OF Cons.prems, of objectURL conv ev c] step that by simp
  with ih step rest show ?case by (simp split: option.splits)
qed

section \<open>The request builder\<close>

text \<open>
  C1. With one to three images the request is built and is the first thing that
  \<^verbatim>\<open>generateVideo\<close> sends. With exactly one image it carries the image in the primary
  \<^verbatim>\<open>image\<close> field, has no reference list, and names the model
  \<^verbatim>\<open>veo-3.1-fast-generate-preview\<close>. With two or three images it has no primary image, its
  \<^verbatim>\<open>referenceImages\<close> list holds one entry per image, in the order of the input, each with
  reference type \<^verbatim>\<open>ASSET\<close>, and it names the model \<^verbatim>\<open>veo-3.1-generate-preview\<close>. Exactly
  one of the two shapes is present, and which one depends on the number of images only.
\<close>

theorem request_shape_by_image_count:
  assumes "1 \<le> length images" and "length images \<le> 3"
  shows "\<exists>req t.
           buildRequest images p ar = Inr req
         \<and> fst (generateVideo images p ar apiKey w) = GenerateVideos req # t
         \<and> prompt req = p
         \<and> config req = \<lparr>numberOfVideos = 1, resolution = ''720p'', aspectRatio = ar,
                          referenceImages = (if length images = 1 then None else
                            Some (map (\<lambda>img. \<lparr>refImage = \<lparr>imageBytes = data img, imageMimeType = mimeType img\<rparr>,
                                              referenceType = ''ASSET''\<rparr>) images))\<rparr>
         \<and> image req = (if length images = 1
                         then Some \<lparr>imageBytes = data (images ! 0), imageMimeType = mimeType (images ! 0)\<rparr>
                         else None)
         \<and> model req = (if length images = 1 then ''veo-3.1-fast-generate-preview''
                         else ''veo-3.1-generate-preview'')
         \<and> ((image req = None) \<noteq> (referenceImages (config req) = None))"
proof -
  have "\<exists>req. buildRequest images p ar = Inr req"
    using assms by (cases images) (simp_all add: buildRequest_def)
  then obtain req where req: "buildRequest images p ar = Inr req" by blast
  obtain t where t: "fst (generateVideo images p ar apiKey w) = GenerateVideos req # t"
    using generateVideo_trace_head [OF req] by blast
  have shape: "prompt req = p
         \<and> config req = \<lparr>numberOfVideos = 1, resolution = ''720p'', aspectRatio = ar,
                          referenceImages = (if length images = 1 then None else
                            Some (map (\<lambda>img. \<lparr>refImage = \<lparr>imageBytes = data img, imageMimeType = mimeType img\<rparr>,
                                              referenceType = ''ASSET''\<rparr>) images))\<rparr>
         \<and> image req = (if length images = 1
                         then Some \<lparr>imageBytes = data (images ! 0), imageMimeType = mimeType (images ! 0)\<rparr>
                         else None)
         \<and> model req = (if length images = 1 then ''veo-3.1-fast-generate-preview''
                         else ''veo-3.1-generate-preview'')"
    using req assms
    by (cases images) (auto simp: buildRequest_def baseConfig_def toReferenceImage_def split: if_splits)
  then have "(image req = None) \<noteq> (referenceImages (config req) = None)"
    by (simp split: if_splits)
  with req t shape show ?thesis by blast
qed

theorem request_shape_by_image_count_witness:
  "1 \<le> length [sampleImage1, sampleImage2, sampleImage3]
   \<and> length [sampleImage1, sampleImage2, sampleImage3] \<le> 3
   \<and> (\<exists>t. buildRequest [sampleImage1, sampleImage2, sampleImage3] ''wave'' ''9:16'' =
          Inr \<lparr>model = ''veo-3.1-generate-preview'', prompt = ''wave'', image = None,
               config = \<lparr>numberOfVideos = 1, resolution = ''720p'', aspectRatio = ''9:16'',
                 referenceImages = Some
                  [\<lparr>refImage = \<lparr>imageBytes = ''AAAA'', imageMimeType = ''image/png''\<rparr>, referenceType = ''ASSET''\<rparr>,
                   \<lparr>refImage = \<lparr>imageBytes = ''BBBB'', imageMimeType = ''image/jpeg''\<rparr>, referenceType = ''ASSET''\<rparr>,
                   \<lparr>refImage = \<lparr>imageBytes = ''CCCC'', imageMimeType = ''image/webp''\<rparr>, referenceType = ''ASSET''\<rparr>]\<rparr>\<rparr>
        \<and> fst (generateVideo [sampleImage1, sampleImage2, sampleImage3] ''wave'' ''9:16'' ''key'' failingWorld)
            = GenerateVideos \<lparr>model = ''veo-3.1-generate-preview'', prompt = ''wave'', image = None,
               config = \<lparr>numberOfVideos = 1, resolution = ''720p'', aspectRatio = ''9:16'',
                 referenceImages = Some
                  [\<lparr>refImage = \<lparr>imageBytes = ''AAAA'', imageMimeType = ''image/png''\<rparr>, referenceType = ''ASSET''\<rparr>,
                   \<lparr>refImage = \<lparr>imageBytes = ''BBBB'', imageMimeType = ''image/jpeg''\<rparr>, referenceType = ''ASSET''\<rparr>,
                   \<lparr>refImage = \<lparr>imageBytes = ''CCCC'', imageMimeType = ''image/webp''\<rparr>, referenceType = ''ASSET''\<rparr>]\<rparr>\<rparr> # t)"
  using request_shape_by_image_count [of "[sampleImage1, sampleImage2, sampleImage3]" "''wave''" "''9:16''" "''key''" failingWorld]
  by (simp add: buildRequest_def baseConfig_def toReferenceImage_def sampleImage1_def sampleImage2_def sampleImage3_def)

text \<open>
  C10. \<^verbatim>\<open>generateVideo\<close> does not check the number of images. The test is
  \<^verbatim>\<open>images.length > 1\<close>, so the empty list takes the single-image branch, where
  \<^verbatim>\<open>images[0].data\<close> reads a property of \<^verbatim>\<open>undefined\<close>: a TypeError is thrown and
  nothing has been sent. Every non-empty list, of any length, gives a request: the
  single-image one for one image, the reference one for two and for more than three alike.
\<close>

theorem empty_image_list_unguarded:
  "buildRequest [] p ar = Inl TypeError
   \<and> generateVideo [] p ar apiKey w = ([], Some (Inl TypeError))
   \<and> (\<forall>img imgs. buildRequest (img # imgs) p ar =
        Inr (if imgs = []
             then \<lparr>model = ''veo-3.1-fast-generate-preview'', prompt = p,
                   image = Some \<lparr>imageBytes = data img, imageMimeType = mimeType img\<rparr>,
                   config = baseConfig ar\<rparr>
             else \<lparr>model = ''veo-3.1-generate-preview'', prompt = p, image = None,
                   config = (baseConfig ar)\<lparr>referenceImages := Some (map toReferenceImage (img # imgs))\<rparr>\<rparr>))"
  by (simp add: buildRequest_def generateVideo_def)

section \<open>The poll loop\<close>

text \<open>
  C3 (as amended). In every run of the poll loop the message index equals the number of
  iterations made (the number of status re-requests issued) modulo the length of the
  message list, which is 6. When the operation and the first \<open>n\<close> answers of the backend
  are all not done, the loop has made exactly \<open>n\<close> iterations and the index is
  \<open>n mod 6\<close>: after 6 polls it is 0 again, and after 7 polls it is 1.
\<close>

theorem messageIndex_cycles:
  "messageIndex (finalState (pollLoop (pollStart [GenerateVideos req] operation0) rs))
     = pollCount (trace (finalState (pollLoop (pollStart [GenerateVideos req] operation0) rs)))
         mod length LOADING_MESSAGES
   \<and> length LOADING_MESSAGES = 6
   \<and> (\<not> op_done operation0 \<and> list_all stillRunning rs \<longrightarrow>
        (\<exists>st. pollLoop (pollStart [GenerateVideos req] operation0) rs = Pending st
            \<and> pollCount (trace st) = length rs
            \<and> messageIndex st = length rs mod length LOADING_MESSAGES))"
proof -
  let ?st0 = "pollStart [GenerateVideos req] operation0"
  have st0: "messageIndex ?st0 = 0" "pollCount (trace ?st0) = 0" "operation ?st0 = operation0"
    by (simp_all add: pollStart_def pollCount_simps)
  then have "messageIndex ?st0 = pollCount (trace ?st0) mod 6" by simp
  from pollLoop_invariant [OF this]
  have inv: "messageIndex (finalState (pollLoop ?st0 rs))
     = pollCount (trace (finalState (pollLoop ?st0 rs))) mod length LOADING_MESSAGES"
    by (simp add: length_LOADING_MESSAGES)
  have run: "\<exists>st. pollLoop ?st0 rs = Pending st \<and> pollCount (trace st) = length rs
            \<and> messageIndex st = length rs mod length LOADING_MESSAGES"
    if h: "\<not> op_done operation0" "list_all stillRunning rs"
  proof -
    from h st0 have "\<not> op_done (operation ?st0)" by simp
    from pollLoop_running_prefix [OF this h(2)] obtain st' where
      st': "\<forall>rs'. pollLoop ?st0 (rs @ rs') = pollLoop st' rs'" "\<not> op_done (operation st')"
        "pollCount (trace st') = pollCount (trace ?st0) + length rs"
      by blast
    from st'(1) have "pollLoop ?st0 (rs @ []) = pollLoop st' []" by blast
    with st'(2) have out: "pollLoop ?st0 rs = Pending st'" by simp
    with inv have "messageIndex st' = pollCount (trace st') mod length LOADING_MESSAGES" by simp
    with out st'(3) st0 show ?thesis by simp
  qed
  from inv run show ?thesis by (simp add: length_LOADING_MESSAGES)
qed

theorem messageIndex_cycles_witness:
  "\<not> op_done runningOperation
   \<and> list_all stillRunning (replicate 6 (Inr runningOperation))
   \<and> (\<exists>st. pollLoop (pollStart [GenerateVideos sampleRequest] runningOperation)
              (replicate 6 (Inr runningOperation)) = Pending st
          \<and> pollCount (trace st) = 6 \<and> messageIndex st = 0)"
proof -
  have a: "\<not> op_done runningOperation"
    by (simp add: runningOperation_def)
  have b: "list_all stillRunning (replicate 6 (Inr runningOperation))"
    by (simp add: stillRunning_def runningOperation_def list_all_length)
  from messageIndex_cycles [of sampleRequest runningOperation "replicate 6 (Inr runningOperation)"] a b
  obtain st where "pollLoop (pollStart [GenerateVideos sampleRequest] runningOperation)
              (replicate 6 (Inr runningOperation)) = Pending st"
     "pollCount (trace st) = 6" "messageIndex st = 6 mod length LOADING_MESSAGES"
    by auto
  with a b show ?thesis by (simp add: length_LOADING_MESSAGES)
qed

text \<open>
  The claim as stated gives index 0 after 7 polls of a 6-entry list. The loop starts at
  index 0 and adds one per poll, so after 7 polls the index is 1.
\<close>

theorem seven_polls_counterexample:
  "pollCount (trace (finalState (pollLoop (pollStart [GenerateVideos sampleRequest] runningOperation)
      [Inr runningOperation, Inr runningOperation, Inr runningOperation, Inr runningOperation,
       Inr runningOperation, Inr runningOperation, Inr runningOperation]))) = 7
   \<and> messageIndex (finalState (pollLoop (pollStart [GenerateVideos sampleRequest] runningOperation)
      [Inr runningOperation, Inr runningOperation, Inr runningOperation, Inr runningOperation,
       Inr runningOperation, Inr runningOperation, Inr runningOperation])) = 1
   \<and> messageIndex (finalState (pollLoop (pollStart [GenerateVideos sampleRequest] runningOperation)
      [Inr runningOperation, Inr runningOperation, Inr runningOperation, Inr runningOperation,
       Inr runningOperation, Inr runningOperation, Inr runningOperation])) \<noteq> 0"
  by (simp add: pollStart_def pollAdvance_def Let_def runningOperation_def length_LOADING_MESSAGES pollCount_simps)

text \<open>
  C4. When a status re-request throws, after any number of re-requests that answered with
  an operation not yet done, \<^verbatim>\<open>generateVideo\<close> throws the same value. That re-request is
  the last one: the later answers of the backend are never asked for, and no download is
  attempted.
\<close>

theorem polling_failure_propagates:
  assumes "buildRequest images p ar = Inr req"
    and "generateVideosResult w = Inr operation0"
    and "\<not> op_done operation0"
    and "getVideosOperationResults w = rs1 @ Inl e # rs2"
    and "list_all stillRunning rs1"
  shows "(\<exists>st. pollLoop (pollStart [GenerateVideos req] operation0) (rs1 @ Inl e # rs2) = Thrown e st)
       \<and> snd (generateVideo images p ar apiKey w) = Some (Inl e)
       \<and> pollCount (fst (generateVideo images p ar apiKey w)) = length rs1 + 1
       \<and> fetchCount (fst (generateVideo images p ar apiKey w)) = 0"
proof -
  let ?st0 = "pollStart [GenerateVideos req] operation0"
  have st0: "\<not> op_done (operation ?st0)" "pollCount (trace ?st0) = 0" "fetchCount (trace ?st0) = 0"
    using assms(3) by (simp_all add: pollStart_def pollCount_simps fetchCount_simps)
  from pollLoop_running_prefix [OF st0(1) assms(5)] obtain st' where
    st': "\<forall>rs. pollLoop ?st0 (rs1 @ rs) = pollLoop st' rs" "\<not> op_done (operation st')"
      "pollCount (trace st') = pollCount (trace ?st0) + length rs1"
      "fetchCount (trace st') = fetchCount (trace ?st0)"
    by blast
  let ?st2 = "(pollAdvance st')\<lparr>trace := trace (pollAdvance st') @ [ConsoleError ''Polling failed:'']\<rparr>"
  from st'(1) have "pollLoop ?st0 (rs1 @ Inl e # rs2) = pollLoop st' (Inl e # rs2)" by blast
  with st'(2) have out: "pollLoop ?st0 (rs1 @ Inl e # rs2) = Thrown e ?st2" by simp
  have cnt: "pollCount (trace ?st2) = length rs1 + 1" "fetchCount (trace ?st2) = 0"
    using st'(3,4) st0(2,3) by (simp_all add: pollAdvance_fields pollCount_simps fetchCount_simps)
  have gv: "generateVideo images p ar apiKey w = (trace ?st2, Some (Inl e))"
    using assms(1,2,4) out by (simp add: generateVideo_def)
  from out gv cnt show ?thesis by simp
qed

theorem polling_failure_propagates_witness:
  "snd (generateVideo [sampleImage1] ''wave'' ''16:9'' ''key'' failingWorld) = Some (Inl (Error ''Failed to fetch''))
   \<and> pollCount (fst (generateVideo [sampleImage1] ''wave'' ''16:9'' ''key'' failingWorld)) = 2
   \<and> fetchCount (fst (generateVideo [sampleImage1] ''wave'' ''16:9'' ''key'' failingWorld)) = 0"
proof -
  have a: "buildRequest [sampleImage1] ''wave'' ''16:9'' = Inr sampleRequest"
    by (simp add: buildRequest_def sampleImage1_def sampleRequest_def baseConfig_def)
  have b: "generateVideosResult failingWorld = Inr runningOperation"
    by (simp add: failingWorld_def)
  have c: "\<not> op_done runningOperation" by (simp add: runningOperation_def)
  have d: "getVideosOperationResults failingWorld =
      [Inr runningOperation] @ Inl (Error ''Failed to fetch'') # [Inr \<lparr>op_done = True, response = None\<rparr>]"
    by (simp add: failingWorld_def)
  have e: "list_all stillRunning [Inr runningOperation]"
    by (simp add: stillRunning_def runningOperation_def)
  from polling_failure_propagates [OF a b c d e, of "''key''"] show ?thesis by simp
qed

section \<open>The result resolver\<close>

text \<open>
  C2 (as amended). For every completed operation the resolver applies the five-way ordered
  classification, the first matching case winning, where case 1 and case 2 look at the
  first generated-video entry only: (1) the first entry has a non-empty result locator:
  success with that locator; (2) otherwise the first entry has a non-empty safety-filter
  reason: the SafetyFiltered error with that reason; (3) otherwise the response has a
  non-empty top-level error message: the UpstreamError with that message; (4) otherwise
  the generated-video list is absent or empty: the EmptyResult error; (5) otherwise the
  MalformedResponse error. The five outcomes are pairwise different, so exactly one of
  them is produced; and an operation with an empty list and no top-level error is
  classified as EmptyResult.
\<close>

theorem five_way_classification:
  "snd (resolveResult operation' t) = outcomeOf (classifyFirstEntry operation')
   \<and> (outcomeOf a = outcomeOf b) = (a = b)
   \<and> snd (resolveResult \<lparr>op_done = True, response = Some \<lparr>generatedVideos = Some [], error = None\<rparr>\<rparr> t)
       = Inl (Error emptyResultMessage)
   \<and> classifyFirstEntry \<lparr>op_done = True, response = Some \<lparr>generatedVideos = Some [], error = None\<rparr>\<rparr>
       = EmptyResult"
proof -
  have d: "classifyFirstEntry \<lparr>op_done = True, response = Some \<lparr>generatedVideos = Some [], error = None\<rparr>\<rparr>
       = EmptyResult"
    by (simp add: classifyFirstEntry_def entries_def topLevelError_def)
  have "snd (resolveResult \<lparr>op_done = True, response = Some \<lparr>generatedVideos = Some [], error = None\<rparr>\<rparr> t)
       = Inl (Error emptyResultMessage)"
    by (simp add: resolveResult_classify d)
  with d show ?thesis by (simp add: resolveResult_classify outcomeOf_inject)
qed

text \<open>
  The claim as stated lets any generated-video entry with a locator give success. The code
  reads \<^verbatim>\<open>generatedVideos?.[0]\<close> only: when the first entry has no locator and the
  second has one, it throws the MalformedResponse error.
\<close>

theorem any_entry_counterexample:
  "entries secondEntryOperation =
     [\<lparr>video = Some \<lparr>uri = None, filterReason = None\<rparr>\<rparr>,
      \<lparr>video = Some \<lparr>uri = Some ''https://example.com/v.mp4'', filterReason = None\<rparr>\<rparr>]
   \<and> classifyAnyEntry secondEntryOperation = Success ''https://example.com/v.mp4''
   \<and> snd (resolveResult secondEntryOperation []) = Inl (Error malformedResponseMessage)
   \<and> snd (resolveResult secondEntryOperation []) \<noteq> outcomeOf (classifyAnyEntry secondEntryOperation)"
  by (simp add: secondEntryOperation_def entries_def classifyAnyEntry_def entryLocator_def
      entryFilterReason_def nonEmpty_def topLevelError_def resolveResult_def firstGeneratedVideo_def
      videoUri_def videoFilterReason_def responseErrorMessage_def noGeneratedVideos_def truthy_def)

text \<open>
  C9. The outcome of resolving an operation does not depend on what happened before (the
  trace so far), and it is a function of the operation's response alone. Resolving the
  same operation any number of times in a row gives the same outcome every time: the same
  link, or the same error with the same message.
\<close>

theorem resolution_deterministic:
  "snd (resolveResult operation' t) = snd (resolveResult operation' t')
   \<and> resolveRepeatedly n operation' t = replicate n (snd (resolveResult operation' t))
   \<and> snd (resolveResult \<lparr>op_done = d, response = response operation'\<rparr> t') = snd (resolveResult operation' t)"
proof -
  have a: "snd (resolveResult operation' u) = snd (resolveResult operation' u')" for u u'
    by (simp add: resolveResult_def Let_def)
  have b: "resolveRepeatedly n operation' u = replicate n (snd (resolveResult operation' t))" for u
  proof (induction n arbitrary: u)
    case 0
    show ?case by simp
  next
    case (Suc n)
    from Suc.IH [of "fst (resolveResult operation' u)"] a [of u t] show ?case by simp
  qed
  have c: "snd (resolveResult \<lparr>op_done = d, response = response operation'\<rparr> t') = snd (resolveResult operation' t)"
    by (simp add: resolveResult_def Let_def)
  from a [of t t'] b [of t] c show ?thesis by simp
qed

text \<open>
  C5. When polling has completed with an operation whose first generated-video entry has
  a non-empty safety-filter reason and no result locator (none, or an empty one),
  \<^verbatim>\<open>generateVideo\<close> throws the error whose message names that reason and advises to try a
  different prompt, and it has issued no fetch.
\<close>

theorem safety_filtered_never_fetches:
  assumes "buildRequest images p ar = Inr req"
    and "generateVideosResult w = Inr operation0"
    and "pollLoop (pollStart [GenerateVideos req] operation0) (getVideosOperationResults w) = Completed st"
    and "response (operation st) = Some resp"
    and "generatedVideos resp = Some (g # gs)"
    and "video g = Some v"
    and "filterReason v = Some reason" and "reason \<noteq> []"
    and "uri v = None \<or> uri v = Some []"
  shows "snd (resolveResult (operation st) (trace st))
           = Inl (Error (''Video was filtered by safety policy: '' @ reason @ ''. Try a different prompt.''))
       \<and> snd (generateVideo images p ar apiKey w)
           = Some (Inl (Error (''Video was filtered by safety policy: '' @ reason @ ''. Try a different prompt.'')))
       \<and> fetchCount (fst (generateVideo images p ar apiKey w)) = 0"
proof -
  let ?e = "Error (''Video was filtered by safety policy: '' @ reason @ ''. Try a different prompt.'')"
  have r: "snd (resolveResult (operation st) (trace st)) = Inl ?e"
    using assms(4-9)
    by (auto simp: resolveResult_def Let_def firstGeneratedVideo_def videoUri_def videoFilterReason_def
        truthy_def safetyFilteredMessage_def)
  from generateVideo_completed(2) [OF assms(1-3) r]
  have gv: "generateVideo images p ar apiKey w = (fst (resolveResult (operation st) (trace st)), Some (Inl ?e))" .
  have "fetchCount (fst (resolveResult (operation st) (trace st))) = 0"
    using generateVideo_completed(1) [OF assms(1-3)] by (simp add: resolveResult_fetchCount)
  with r gv show ?thesis by simp
qed

theorem safety_filtered_never_fetches_witness:
  "snd (generateVideo [sampleImage1] ''wave'' ''16:9'' ''key'' filteredWorld)
      = Some (Inl (Error ''Video was filtered by safety policy: violence. Try a different prompt.''))
   \<and> fetchCount (fst (generateVideo [sampleImage1] ''wave'' ''16:9'' ''key'' filteredWorld)) = 0"
proof -
  have a: "buildRequest [sampleImage1] ''wave'' ''16:9'' = Inr sampleRequest"
    by (simp add: buildRequest_def sampleImage1_def sampleRequest_def baseConfig_def)
  have b: "generateVideosResult filteredWorld = Inr filteredOperation"
    by (simp add: filteredWorld_def)
  have c: "pollLoop (pollStart [GenerateVideos sampleRequest] filteredOperation) (getVideosOperationResults filteredWorld)
      = Completed (pollStart [GenerateVideos sampleRequest] filteredOperation)"
    by (simp add: filteredWorld_def filteredOperation_def pollStart_def)
  have d: "response (operation (pollStart [GenerateVideos sampleRequest] filteredOperation)) =
     Some \<lparr>generatedVideos = Some [\<lparr>video = Some \<lparr>uri = None, filterReason = Some ''violence''\<rparr>\<rparr>], error = None\<rparr>"
    by (simp add: filteredOperation_def pollStart_def)
  from safety_filtered_never_fetches [OF a b c d, of "\<lparr>video = Some \<lparr>uri = None, filterReason = Some ''violence''\<rparr>\<rparr>" "[]"
      "\<lparr>uri = None, filterReason = Some ''violence''\<rparr>" "''violence''" "''key''"]
  show ?thesis by simp
qed

text \<open>
  C6. When polling has completed with an operation whose first entry has a non-empty
  locator, the video is fetched from that locator with the key appended, once. If the
  answer is not \<^verbatim>\<open>ok\<close>, \<^verbatim>\<open>generateVideo\<close> throws the error
  \<^verbatim>\<open>Failed to download video:\<close> followed by the status text, which is none of the outcomes
  of the five-way classification; only if the answer is \<^verbatim>\<open>ok\<close> it returns the object URL
  made of the body.
\<close>

theorem download_failure_is_distinct:
  assumes "buildRequest images p ar = Inr req"
    and "generateVideosResult w = Inr operation0"
    and "pollLoop (pollStart [GenerateVideos req] operation0) (getVideosOperationResults w) = Completed st"
    and "response (operation st) = Some resp"
    and "generatedVideos resp = Some (g # gs)"
    and "video g = Some v"
    and "uri v = Some downloadLink" and "downloadLink \<noteq> []"
    and "fetchResult w (downloadLink @ ''&key='' @ apiKey) = Inr downloadResponse"
  shows "snd (generateVideo images p ar apiKey w) =
           (if ok downloadResponse then Some (Inr (createObjectURL w (blob downloadResponse)))
            else Some (Inl (Error (''Failed to download video: '' @ statusText downloadResponse))))
       \<and> (\<forall>c. outcomeOf c \<noteq> Inl (Error (''Failed to download video: '' @ statusText downloadResponse)))
       \<and> fst (generateVideo images p ar apiKey w) =
           trace st @ [SetLoadingMessage ''Fetching generated video...'', Fetch (downloadLink @ ''&key='' @ apiKey)]"
proof -
  have r: "snd (resolveResult (operation st) (trace st)) = Inr downloadLink"
    using assms(4-8)
    by (simp add: resolveResult_def Let_def firstGeneratedVideo_def videoUri_def truthy_def)
  note gv = generateVideo_completed(3) [OF assms(1-3) r, of apiKey]
  have dl: "downloadVideo w apiKey downloadLink (trace st) =
      (trace st @ [SetLoadingMessage ''Fetching generated video...'', Fetch (downloadLink @ ''&key='' @ apiKey)],
       if ok downloadResponse then Inr (createObjectURL w (blob downloadResponse))
       else Inl (Error (''Failed to download video: '' @ statusText downloadResponse)))"
    using assms(9) by (simp add: downloadVideo_def Let_def downloadFailedMessage_def)
  have distinct: "outcomeOf c \<noteq> Inl (Error (''Failed to download video: '' @ statusText downloadResponse))" for c
    using outcomeOf_not_download [of c "statusText downloadResponse"]
    by (simp add: downloadFailedMessage_def)
  from gv dl distinct show ?thesis by simp
qed

theorem download_failure_is_distinct_witness:
  "snd (generateVideo [sampleImage1] ''wave'' ''16:9'' ''key'' forbiddenWorld)
      = Some (Inl (Error ''Failed to download video: Forbidden''))
   \<and> fst (generateVideo [sampleImage1] ''wave'' ''16:9'' ''key'' forbiddenWorld)
      = [GenerateVideos sampleRequest, SetLoadingMessage ''Recalling the details of your memory...'',
         SetLoadingMessage ''Fetching generated video...'',
         Fetch ''https://example.com/v.mp4?alt=media&key=key'']"
proof -
  have a: "buildRequest [sampleImage1] ''wave'' ''16:9'' = Inr sampleRequest"
    by (simp add: buildRequest_def sampleImage1_def sampleRequest_def baseConfig_def)
  have b: "generateVideosResult forbiddenWorld = Inr readyOperation"
    by (simp add: forbiddenWorld_def)
  have c: "pollLoop (pollStart [GenerateVideos sampleRequest] readyOperation) (getVideosOperationResults forbiddenWorld)
      = Completed (pollStart [GenerateVideos sampleRequest] readyOperation)"
    by (simp add: forbiddenWorld_def readyOperation_def pollStart_def)
  have d: "response (operation (pollStart [GenerateVideos sampleRequest] readyOperation)) =
     Some \<lparr>generatedVideos = Some [\<lparr>video = Some \<lparr>uri = Some ''https://example.com/v.mp4?alt=media'', filterReason = None\<rparr>\<rparr>], error = None\<rparr>"
    by (simp add: readyOperation_def pollStart_def)
  have e: "fetchResult forbiddenWorld (''https://example.com/v.mp4?alt=media'' @ ''&key='' @ ''key'')
      = Inr \<lparr>ok = False, statusText = ''Forbidden'', blob = []\<rparr>"
    by (simp add: forbiddenWorld_def)
  from download_failure_is_distinct [OF a b c d _ _ _ _ e,
      of "\<lparr>video = Some \<lparr>uri = Some ''https://example.com/v.mp4?alt=media'', filterReason = None\<rparr>\<rparr>" "[]"
         "\<lparr>uri = Some ''https://example.com/v.mp4?alt=media'', filterReason = None\<rparr>"]
  show ?thesis by (simp add: pollStart_def LOADING_MESSAGES_def)
qed

section \<open>The form\<close>

text \<open>
  C7. In the form, adding files that would bring the number of selected images above 3
  sets the validation error and leaves the selection as it was; submitting with no image
  selected sets the validation error and does not call \<^verbatim>\<open>onGenerate\<close>. Hence in every
  session of the form, from its initial state and under any events (files added or
  removed, prompt and aspect ratio edited, suggestions asked for, submissions), the
  selection never holds more than 3 images and every call of \<^verbatim>\<open>onGenerate\<close>, which hands
  its images to \<^verbatim>\<open>generateVideo\<close>, carries 1 to 3 images.
\<close>

theorem form_validates_image_count:
  "(fileArray \<noteq> [] \<and> length (imageFiles st) + length fileArray > 3 \<longrightarrow>
      handleFileChange objectURL (Some fileArray) st
        = st\<lparr>formError := Some ''You can upload a maximum of 3 images.''\<rparr>
      \<and> imageFiles (handleFileChange objectURL (Some fileArray) st) = imageFiles st)
   \<and> (imageFiles st = [] \<longrightarrow>
      handleSubmit conv st
        = (st\<lparr>formError := Some ''Please provide at least one image and a prompt.''\<rparr>, None))
   \<and> list_all callInRange (snd (runForm objectURL conv events initialForm))
   \<and> length (imageFiles (fst (runForm objectURL conv events initialForm))) \<le> 3"
proof -
  have "length (imageFiles initialForm) \<le> 3" by (simp add: initialForm_def)
  from runForm_bound [OF this, of objectURL conv events]
  show ?thesis by (simp add: handleFileChange_def handleSubmit_def)
qed

theorem form_validates_image_count_witness:
  "handleFileChange sampleObjectURL (Some [photo ''c.png'', photo ''d.png'']) twoPhotos
      = twoPhotos\<lparr>formError := Some ''You can upload a maximum of 3 images.''\<rparr>
   \<and> handleSubmit sampleConversion initialForm
      = (initialForm\<lparr>formError := Some ''Please provide at least one image and a prompt.''\<rparr>, None)
   \<and> snd (runForm sampleObjectURL sampleConversion sampleSession initialForm)
      = [OnGenerate [\<lparr>data = ''a.png'', mimeType = ''image/png''\<rparr>, \<lparr>data = ''b.png'', mimeType = ''image/png''\<rparr>]
           ''Bring this memory to life with gentle, nostalgic motion.'' ''16:9'']
   \<and> list_all callInRange (snd (runForm sampleObjectURL sampleConversion sampleSession initialForm))"
proof -
  have a: "[photo ''c.png'', photo ''d.png''] \<noteq> []
      \<and> length (imageFiles twoPhotos) + length [photo ''c.png'', photo ''d.png''] > 3"
    by (simp add: twoPhotos_def)
  have b: "imageFiles initialForm = []" by (simp add: initialForm_def)
  have c: "snd (runForm sampleObjectURL sampleConversion sampleSession initialForm)
      = [OnGenerate [\<lparr>data = ''a.png'', mimeType = ''image/png''\<rparr>, \<lparr>data = ''b.png'', mimeType = ''image/png''\<rparr>]
           ''Bring this memory to life with gentle, nostalgic motion.'' ''16:9'']"
    by (simp add: sampleSession_def initialForm_def handleFileChange_def handleSubmit_def photo_def
        sampleConversion_def sampleObjectURL_def)
  from form_validates_image_count [of "[photo ''c.png'', photo ''d.png'']" twoPhotos sampleObjectURL
      sampleConversion sampleSession] a
  have "handleFileChange sampleObjectURL (Some [photo ''c.png'', photo ''d.png'']) twoPhotos
      = twoPhotos\<lparr>formError := Some ''You can upload a maximum of 3 images.''\<rparr>"
    and "list_all callInRange (snd (runForm sampleObjectURL sampleConversion sampleSession initialForm))"
    by blast+
  moreover from form_validates_image_count [of "[]" initialForm sampleObjectURL sampleConversion "[]"] b
  have "handleSubmit sampleConversion initialForm
      = (initialForm\<lparr>formError := Some ''Please provide at least one image and a prompt.''\<rparr>, None)"
    by blast
  ultimately show ?thesis using c by simp
qed

section \<open>The password endpoint\<close>

text \<open>
  C8 (as amended). A request whose method is not POST is answered with 405. For a POST
  request with a body: if the password is missing, empty or not a string, the answer is
  400, whatever the configuration of the server; otherwise, if the server-side secret or
  the API key is absent or empty, the answer is 500; otherwise, if the password differs
  from the secret, the answer is 401; otherwise it is 200 with the server-held API key.
  The handler is a function of the request and of the two environment variables, and
  changes neither.
\<close>

theorem verify_password_decision:
  "(httpMethod req \<noteq> ''POST'' \<longrightarrow>
      handler req env = Inr \<lparr>status = 405, json = ErrorReply ''Method not allowed''\<rparr>)
   \<and> (httpMethod req = ''POST'' \<and> body req = Body v \<and> (\<forall>p. v = JString p \<longrightarrow> p = []) \<longrightarrow>
      handler req env = Inr \<lparr>status = 400, json = ErrorReply ''Password is required''\<rparr>)
   \<and> (httpMethod req = ''POST'' \<and> body req = Body (JString p) \<and> p \<noteq> [] \<longrightarrow>
      handler req env =
        (if ACCESS_PASSWORD env = None \<or> ACCESS_PASSWORD env = Some []
            \<or> GEMINI_API_KEY env = None \<or> GEMINI_API_KEY env = Some []
         then Inr \<lparr>status = 500,
                   json = ErrorReply ''Server is not configured. Set ACCESS_PASSWORD and GEMINI_API_KEY in Vercel environment variables.''\<rparr>
         else if ACCESS_PASSWORD env \<noteq> Some p
         then Inr \<lparr>status = 401, json = ErrorReply ''Invalid password''\<rparr>
         else Inr \<lparr>status = 200, json = ApiKeyReply (the (GEMINI_API_KEY env))\<rparr>))"
proof -
  have a: "handler req env = Inr \<lparr>status = 400, json = ErrorReply ''Password is required''\<rparr>"
    if "httpMethod req = ''POST''" "body req = Body v" "\<forall>p. v = JString p \<longrightarrow> p = []"
    using that by (cases v) (simp_all add: handler_def)
  have b: "handler req env =
        (if ACCESS_PASSWORD env = None \<or> ACCESS_PASSWORD env = Some []
            \<or> GEMINI_API_KEY env = None \<or> GEMINI_API_KEY env = Some []
         then Inr \<lparr>status = 500,
                   json = ErrorReply ''Server is not configured. Set ACCESS_PASSWORD and GEMINI_API_KEY in Vercel environment variables.''\<rparr>
         else if ACCESS_PASSWORD env \<noteq> Some p
         then Inr \<lparr>status = 401, json = ErrorReply ''Invalid password''\<rparr>
         else Inr \<lparr>status = 200, json = ApiKeyReply (the (GEMINI_API_KEY env))\<rparr>)"
    if "httpMethod req = ''POST''" "body req = Body (JString p)" "p \<noteq> []"
    using that by (auto simp: handler_def truthy_def Let_def split: option.splits)
  have c: "httpMethod req \<noteq> ''POST'' \<longrightarrow>
      handler req env = Inr \<lparr>status = 405, json = ErrorReply ''Method not allowed''\<rparr>"
    by (simp add: handler_def)
  from a b c show ?thesis by blast
qed

theorem verify_password_decision_witness:
  "handler \<lparr>httpMethod = ''POST'', body = Body (JString ''sesame'')\<rparr> configured
      = Inr \<lparr>status = 200, json = ApiKeyReply ''AIza-key''\<rparr>
   \<and> handler \<lparr>httpMethod = ''POST'', body = Body (JString ''guess'')\<rparr> configured
      = Inr \<lparr>status = 401, json = ErrorReply ''Invalid password''\<rparr>
   \<and> handler \<lparr>httpMethod = ''POST'', body = Body (JNumber 7)\<rparr> configured
      = Inr \<lparr>status = 400, json = ErrorReply ''Password is required''\<rparr>
   \<and> handler \<lparr>httpMethod = ''GET'', body = NoBody\<rparr> configured
      = Inr \<lparr>status = 405, json = ErrorReply ''Method not allowed''\<rparr>"
  using verify_password_decision [of "\<lparr>httpMethod = ''POST'', body = Body (JString ''sesame'')\<rparr>" configured "JString ''sesame''" "''sesame''"]
    verify_password_decision [of "\<lparr>httpMethod = ''POST'', body = Body (JString ''guess'')\<rparr>" configured "JString ''guess''" "''guess''"]
    verify_password_decision [of "\<lparr>httpMethod = ''POST'', body = Body (JNumber 7)\<rparr>" configured "JNumber 7" "[]"]
    verify_password_decision [of "\<lparr>httpMethod = ''GET'', body = NoBody\<rparr>" configured "JNull" "[]"]
  by (simp add: configured_def)

text \<open>
  The claim as stated answers every request with 500 when the secret or the key is
  absent. The password is checked first: a POST request without a password gets 400 from a
  server with no configuration.
\<close>

theorem missing_password_before_configuration_counterexample:
  "httpMethod noPasswordRequest = ''POST''
   \<and> ACCESS_PASSWORD unconfigured = None \<and> GEMINI_API_KEY unconfigured = None
   \<and> handler noPasswordRequest unconfigured
       = Inr \<lparr>status = 400, json = ErrorReply ''Password is required''\<rparr>
   \<and> handler noPasswordRequest unconfigured
       \<noteq> Inr \<lparr>status = 500,
               json = ErrorReply ''Server is not configured. Set ACCESS_PASSWORD and GEMINI_API_KEY in Vercel environment variables.''\<rparr>"
  by (simp add: handler_def noPasswordRequest_def unconfigured_def)

end
